theory Spec2Isabelle
  imports Main "HOL-Library.Word"
begin

section \<open>Data model (types.ts, App.tsx)\<close>

text \<open>\<^verbatim>\<open>export enum AspectRatio { SQUARE = '1:1', PORTRAIT = '3:4', STORY = '9:16' }\<close>\<close>

datatype AspectRatio = SQUARE | PORTRAIT | STORY

fun ratio_string :: "AspectRatio \<Rightarrow> string" where
  "ratio_string SQUARE = ''1:1''"
| "ratio_string PORTRAIT = ''3:4''"
| "ratio_string STORY = ''9:16''"

text \<open>\<^verbatim>\<open>export type GenerationStatus = 'idle' | 'generating' | 'success' | 'error'\<close>\<close>

datatype GenerationStatus = Idle | Generating | Success | Error

text \<open>
  The seven \<^verbatim>\<open>useState\<close> cells of the \<^verbatim>\<open>App\<close> component. A nullable string is a
  \<open>string option\<close>; \<open>None\<close> stands for \<^verbatim>\<open>null\<close> and \<^verbatim>\<open>undefined\<close> alike
  (the code only ever tests these cells for truthiness).
\<close>

record session =
  apiKeySet :: bool
  originalImage :: "string option"
  originalImageBase64 :: "string option"
  generatedImage :: "string option"
  selectedRatio :: AspectRatio
  status :: GenerationStatus
  errorMsg :: "string option"

definition initial :: session where
  "initial = \<lparr> apiKeySet = False, originalImage = None, originalImageBase64 = None,
     generatedImage = None, selectedRatio = PORTRAIT, status = Idle, errorMsg = None \<rparr>"

text \<open>JavaScript truthiness of a \<^verbatim>\<open>string | null\<close>: \<^verbatim>\<open>null\<close> and \<^verbatim>\<open>""\<close> are falsy.\<close>

fun truthy :: "string option \<Rightarrow> bool" where
  "truthy None = False"
| "truthy (Some s) = (s \<noteq> [])"

text \<open>A thrown value, read only through \<^verbatim>\<open>err.message\<close> (absent: \<open>None\<close>).\<close>

datatype jserror = JsError (message: "string option")

section \<open>String helpers of the JavaScript runtime\<close>

text \<open>\<^verbatim>\<open>s.split(c)\<close> for a one-character separator: never an empty array.\<close>

fun split_on :: "char \<Rightarrow> string \<Rightarrow> string list" where
  "split_on c [] = [[]]"
| "split_on c (x # xs) =
     (if x = c then [] # split_on c xs
      else (case split_on c xs of
              [] \<Rightarrow> [[x]]
            | w # ws \<Rightarrow> (x # w) # ws))"

text \<open>\<^verbatim>\<open>a[i]\<close>: \<^verbatim>\<open>undefined\<close> (here \<open>None\<close>) out of range.\<close>

fun nth_opt :: "'a list \<Rightarrow> nat \<Rightarrow> 'a option" where
  "nth_opt [] i = None"
| "nth_opt (x # xs) 0 = Some x"
| "nth_opt (x # xs) (Suc i) = nth_opt xs i"

fun is_prefix :: "string \<Rightarrow> string \<Rightarrow> bool" where
  "is_prefix [] s = True"
| "is_prefix (p # ps) [] = False"
| "is_prefix (p # ps) (c # cs) = (p = c \<and> is_prefix ps cs)"

text \<open>\<^verbatim>\<open>s.includes(pat)\<close>: \<open>pat\<close> occurs in \<open>s\<close> as a contiguous substring.\<close>

fun str_includes :: "string \<Rightarrow> string \<Rightarrow> bool" where
  "str_includes [] pat = (pat = [])"
| "str_includes (c # cs) pat = (is_prefix pat (c # cs) \<or> str_includes cs pat)"

section \<open>services/geminiService.ts\<close>

subsection \<open>blobToBase64\<close>

text \<open>
  What the \<^verbatim>\<open>FileReader\<close> did with the blob: it fired \<^verbatim>\<open>error\<close> (and then
  \<^verbatim>\<open>loadend\<close>, too late to settle the promise again), or it fired \<^verbatim>\<open>loadend\<close> with
  \<^verbatim>\<open>reader.result\<close> holding the data URL.
\<close>

datatype read_outcome = ReadError | Loaded string

text \<open>
  \<^verbatim>\<open>
  reader.onloadend = () => {
    const base64String = reader.result as string;
    const base64Data = base64String.split(',')[1];
    resolve(base64Data);
  };
  reader.onerror = reject;
  \<close>
  \<open>Inl ()\<close> is the rejected promise, \<open>Inr v\<close> the resolved one; \<open>v = None\<close> is the
  \<^verbatim>\<open>undefined\<close> that \<^verbatim>\<open>[1]\<close> gives when the result holds no comma.
\<close>

fun blobToBase64 :: "read_outcome \<Rightarrow> unit + string option" where
  "blobToBase64 ReadError = Inl ()"
| "blobToBase64 (Loaded base64String) = Inr (nth_opt (split_on (CHR '','') base64String) 1)"

subsection \<open>generateExpandedImage\<close>

text \<open>The request handed to \<^verbatim>\<open>ai.models.generateContent\<close>.\<close>

record request =
  req_model :: string
  req_text :: string
  req_data :: string
  req_mimeType :: string
  req_aspectRatio :: string
  req_imageSize :: string

definition default_prompt :: string where
  "default_prompt = ''Expand this image naturally.''"

definition nl_indent :: string where
  "nl_indent = CHR 0x0A # replicate 12 (CHR '' '')"

definition prompt_text :: "AspectRatio \<Rightarrow> string \<Rightarrow> string" where
  "prompt_text targetRatio promptDescription =
     ''Perform an outpainting task to resize the image to aspect ratio '' @ ratio_string targetRatio @ ''. ''
     @ nl_indent @ promptDescription @ '' ''
     @ nl_indent @ ''Critical instructions:''
     @ nl_indent @ ''1. Keep the original central image absolutely unchanged and intact.''
     @ nl_indent @ ''2. Only generate new content in the added empty space (borders).''
     @ nl_indent @ ''3. The new background must seamlessly blend with the original lighting, textures, and style.''
     @ nl_indent @ ''4. High photorealism.''"

definition build_request :: "string \<Rightarrow> AspectRatio \<Rightarrow> string \<Rightarrow> request" where
  "build_request originalImageBase64' targetRatio promptDescription =
     \<lparr> req_model = ''gemini-3-pro-image-preview'',
       req_text = prompt_text targetRatio promptDescription,
       req_data = originalImageBase64',
       req_mimeType = ''image/png'',
       req_aspectRatio = ratio_string targetRatio,
       req_imageSize = ''1K'' \<rparr>"

text \<open>
  The response of the SDK, as far as the code reads it:
  \<^verbatim>\<open>response.candidates?.[0]?.content?.parts\<close>, each part with an optional
  \<^verbatim>\<open>inlineData\<close> whose \<^verbatim>\<open>data\<close> is itself optional.
\<close>

record inline_data =
  data :: "string option"
  mimeType :: "string option"

record part =
  text_of :: "string option"
  inlineData :: "inline_data option"

record content =
  parts :: "part list option"

record candidate =
  content_of :: "content option"

record response =
  candidates :: "candidate list option"

text \<open>\<^verbatim>\<open>response.candidates?.[0]?.content?.parts || []\<close>\<close>

definition response_parts :: "response \<Rightarrow> part list" where
  "response_parts r =
     (case candidates r of
        None \<Rightarrow> []
      | Some cs \<Rightarrow>
          (case nth_opt cs 0 of
             None \<Rightarrow> []
           | Some c \<Rightarrow>
               (case content_of c of
                  None \<Rightarrow> []
                | Some ct \<Rightarrow> (case parts ct of None \<Rightarrow> [] | Some ps \<Rightarrow> ps))))"

text \<open>A template literal prints \<^verbatim>\<open>undefined\<close> as the word.\<close>

fun template_string :: "string option \<Rightarrow> string" where
  "template_string None = ''undefined''"
| "template_string (Some s) = s"

text \<open>
  \<^verbatim>\<open>
  for (const part of ...) {
    if (part.inlineData) {
      const base64EncodeString = part.inlineData.data;
      return `data:image/png;base64,${base64EncodeString}`;
    }
  }
  throw new Error("No image data found in response");
  \<close>
\<close>

fun extract_image :: "part list \<Rightarrow> jserror + string" where
  "extract_image [] = Inl (JsError (Some ''No image data found in response''))"
| "extract_image (p # ps) =
     (case inlineData p of
        Some d \<Rightarrow> Inr (''data:image/png;base64,'' @ template_string (data d))
      | None \<Rightarrow> extract_image ps)"

text \<open>
  The remote call is the parameter \<open>generateContent\<close>: it throws (\<open>Inl\<close>) or returns
  a response. The \<^verbatim>\<open>catch\<close> of the function logs and rethrows the same error.
\<close>

definition generateExpandedImage ::
  "(request \<Rightarrow> jserror + response) \<Rightarrow> string \<Rightarrow> AspectRatio \<Rightarrow> jserror + string" where
  "generateExpandedImage generateContent originalImageBase64' targetRatio =
     (case generateContent (build_request originalImageBase64' targetRatio default_prompt) of
        Inl e \<Rightarrow> Inl e
      | Inr resp \<Rightarrow> extract_image (response_parts resp))"

section \<open>The handlers of App.tsx\<close>

text \<open>
  \<^verbatim>\<open>checkApiKey\<close>: \<open>None\<close> when \<^verbatim>\<open>window.aistudio\<close> is missing or the check threw,
  otherwise the answer of \<^verbatim>\<open>hasSelectedApiKey\<close>.
\<close>

fun checkApiKey :: "bool option \<Rightarrow> session \<Rightarrow> session" where
  "checkApiKey None s = s"
| "checkApiKey (Some hasKey) s = s\<lparr>apiKeySet := hasKey\<rparr>"

datatype key_outcome = NoStudio | KeySelected | SelectThrew

fun handleSelectKey :: "key_outcome \<Rightarrow> session \<Rightarrow> session" where
  "handleSelectKey NoStudio s = s"
| "handleSelectKey KeySelected s = s\<lparr>apiKeySet := True\<rparr>"
| "handleSelectKey SelectThrew s =
     s\<lparr>errorMsg := Some ''Failed to select API key. Please try again.''\<rparr>"

text \<open>
  \<^verbatim>\<open>handleImageUpload\<close> up to its \<^verbatim>\<open>await\<close>; \<open>url\<close> is what
  \<^verbatim>\<open>URL.createObjectURL(file)\<close> returned.
\<close>

definition handleImageUpload_begin :: "string \<Rightarrow> session \<Rightarrow> session" where
  "handleImageUpload_begin url s =
     s\<lparr>originalImage := Some url, generatedImage := None, errorMsg := None\<rparr>"

text \<open>\<^verbatim>\<open>handleImageUpload\<close> after the \<^verbatim>\<open>await\<close>, on the settled promise.\<close>

fun handleImageUpload_settle :: "unit + string option \<Rightarrow> session \<Rightarrow> session" where
  "handleImageUpload_settle (Inr b64) s = s\<lparr>originalImageBase64 := b64\<rparr>"
| "handleImageUpload_settle (Inl e) s =
     s\<lparr>errorMsg := Some ''Failed to process image. Please try another one.''\<rparr>"

text \<open>The whole handler, when nothing else runs while it waits for the reader.\<close>

definition handleImageUpload :: "string \<Rightarrow> read_outcome \<Rightarrow> session \<Rightarrow> session" where
  "handleImageUpload url outcome s =
     handleImageUpload_settle (blobToBase64 outcome) (handleImageUpload_begin url s)"

definition handleClear :: "session \<Rightarrow> session" where
  "handleClear s =
     s\<lparr>originalImage := None, originalImageBase64 := None, generatedImage := None,
       status := Idle\<rparr>"

text \<open>\<^verbatim>\<open>onSelect={setSelectedRatio}\<close>\<close>

definition setSelectedRatio :: "AspectRatio \<Rightarrow> session \<Rightarrow> session" where
  "setSelectedRatio r s = s\<lparr>selectedRatio := r\<rparr>"

text \<open>\<^verbatim>\<open>onClick={() => setGeneratedImage(null)}\<close> of "Try Different Ratio".\<close>

definition discardResult :: "session \<Rightarrow> session" where
  "discardResult s = s\<lparr>generatedImage := None\<rparr>"

text \<open>
  \<^verbatim>\<open>handleGenerate\<close> up to its \<^verbatim>\<open>await\<close>: the new session, and the arguments of the
  call to \<^verbatim>\<open>generateExpandedImage\<close> if one is made.
\<close>

definition handleGenerate_begin :: "session \<Rightarrow> session \<times> (string \<times> AspectRatio) option" where
  "handleGenerate_begin s =
     (if \<not> truthy (originalImageBase64 s) \<or> \<not> apiKeySet s then (s, None)
      else (case originalImageBase64 s of
              None \<Rightarrow> (s, None)
            | Some b64 \<Rightarrow> (s\<lparr>status := Generating, errorMsg := None\<rparr>, Some (b64, selectedRatio s))))"

definition credential_marker :: string where
  "credential_marker = ''Requested entity was not found''"

text \<open>\<^verbatim>\<open>err.message || "Something went wrong. Please try again."\<close>\<close>

fun message_or_default :: "jserror \<Rightarrow> string" where
  "message_or_default (JsError None) = ''Something went wrong. Please try again.''"
| "message_or_default (JsError (Some m)) =
     (if m = [] then ''Something went wrong. Please try again.'' else m)"

text \<open>\<^verbatim>\<open>err.message && err.message.includes("Requested entity was not found")\<close>\<close>

fun is_key_error :: "jserror \<Rightarrow> bool" where
  "is_key_error (JsError None) = False"
| "is_key_error (JsError (Some m)) = (m \<noteq> [] \<and> str_includes m credential_marker)"

text \<open>\<^verbatim>\<open>handleGenerate\<close> after the \<^verbatim>\<open>await\<close>: the \<^verbatim>\<open>try\<close> tail or the \<^verbatim>\<open>catch\<close>.\<close>

fun handleGenerate_settle :: "jserror + string \<Rightarrow> session \<Rightarrow> session" where
  "handleGenerate_settle (Inr result) s = s\<lparr>generatedImage := Some result, status := Success\<rparr>"
| "handleGenerate_settle (Inl err) s =
     (let s1 = s\<lparr>status := Error, errorMsg := Some (message_or_default err)\<rparr>
      in if is_key_error err
         then s1\<lparr>apiKeySet := False,
                 errorMsg := Some ''API Key issue. Please select your key again.''\<rparr>
         else s1)"

text \<open>
  The whole handler, when nothing else runs while it waits: the final session and the
  request that went out, if any.
\<close>

definition handleGenerate ::
  "(request \<Rightarrow> jserror + response) \<Rightarrow> session \<Rightarrow> session \<times> request option" where
  "handleGenerate generateContent s =
     (case handleGenerate_begin s of
        (s1, None) \<Rightarrow> (s1, None)
      | (s1, Some (b64, ratio)) \<Rightarrow>
          (handleGenerate_settle (generateExpandedImage generateContent b64 ratio) s1,
           Some (build_request b64 ratio default_prompt)))"

section \<open>The component over time\<close>

text \<open>
  Both asynchronous handlers give control back at their \<^verbatim>\<open>await\<close>, and every state
  setter they call afterwards writes a fixed value, whatever the session has become
  meanwhile. A world is the session together with the calls still waiting and the log
  of requests that went out.
\<close>

record world =
  sess :: session
  sent :: "request list"
  inflight :: "(string \<times> AspectRatio) list"
  pendingRead :: nat

definition initial_world :: world where
  "initial_world = \<lparr> sess = initial, sent = [], inflight = [], pendingRead = 0 \<rparr>"

fun remove_nth :: "nat \<Rightarrow> 'a list \<Rightarrow> 'a list" where
  "remove_nth n [] = []"
| "remove_nth 0 (x # xs) = xs"
| "remove_nth (Suc n) (x # xs) = x # remove_nth n xs"

datatype event =
    EvCheckApiKey "bool option"
  | EvSelectKey key_outcome
  | EvUpload string
  | EvUploadSettled read_outcome
  | EvSelectRatio AspectRatio
  | EvGenerate
  | EvGenerateSettled nat "jserror + response"
  | EvReset
  | EvDiscardResult

text \<open>
  One handler invocation, or one continuation after an \<^verbatim>\<open>await\<close>.
  \<open>EvGenerateSettled n r\<close>: the \<open>n\<close>-th waiting remote call threw or answered \<open>r\<close>;
  a settlement with no call waiting for it does not happen.
\<close>

fun step :: "world \<Rightarrow> event \<Rightarrow> world" where
  "step w (EvCheckApiKey r) = w\<lparr>sess := checkApiKey r (sess w)\<rparr>"
| "step w (EvSelectKey k) = w\<lparr>sess := handleSelectKey k (sess w)\<rparr>"
| "step w (EvUpload url) =
     w\<lparr>sess := handleImageUpload_begin url (sess w), pendingRead := Suc (pendingRead w)\<rparr>"
| "step w (EvUploadSettled outcome) =
     (case pendingRead w of
        0 \<Rightarrow> w
      | Suc k \<Rightarrow> w\<lparr>sess := handleImageUpload_settle (blobToBase64 outcome) (sess w),
                    pendingRead := k\<rparr>)"
| "step w (EvSelectRatio r) = w\<lparr>sess := setSelectedRatio r (sess w)\<rparr>"
| "step w EvGenerate =
     (case handleGenerate_begin (sess w) of
        (s1, None) \<Rightarrow> w\<lparr>sess := s1\<rparr>
      | (s1, Some (b64, ratio)) \<Rightarrow>
          w\<lparr>sess := s1,
            sent := sent w @ [build_request b64 ratio default_prompt],
            inflight := inflight w @ [(b64, ratio)]\<rparr>)"
| "step w (EvGenerateSettled n r) =
     (case nth_opt (inflight w) n of
        None \<Rightarrow> w
      | Some (b64, ratio) \<Rightarrow>
          w\<lparr>sess := handleGenerate_settle (generateExpandedImage (\<lambda>_. r) b64 ratio) (sess w),
            inflight := remove_nth n (inflight w)\<rparr>)"
| "step w EvReset = w\<lparr>sess := handleClear (sess w)\<rparr>"
| "step w EvDiscardResult = w\<lparr>sess := discardResult (sess w)\<rparr>"

definition run :: "event list \<Rightarrow> world \<Rightarrow> world" where
  "run evs w = foldl step w evs"

subsection \<open>The Generate button (components/Button.tsx, App.tsx)\<close>

text \<open>
  \<^verbatim>\<open><button disabled={disabled || isLoading} {...props}>\<close>: a disabled button delivers
  no click to \<^verbatim>\<open>onClick\<close>.
\<close>

definition Button_click :: "bool \<Rightarrow> bool \<Rightarrow> ('w \<Rightarrow> 'w) \<Rightarrow> 'w \<Rightarrow> 'w" where
  "Button_click disabled isLoading onClick w = (if disabled \<or> isLoading then w else onClick w)"

text \<open>
  The button is rendered past \<^verbatim>\<open>if (!apiKeySet) return ...\<close>, inside
  \<^verbatim>\<open>{originalImage && (...)}\<close> and \<^verbatim>\<open>{!generatedImage && (...)}\<close>.
\<close>

definition generate_button_shown :: "session \<Rightarrow> bool" where
  "generate_button_shown s =
     (apiKeySet s \<and> truthy (originalImage s) \<and> \<not> truthy (generatedImage s))"

text \<open>\<^verbatim>\<open><Button onClick={handleGenerate} isLoading={status === 'generating'} ...>\<close>\<close>

definition click_generate :: "world \<Rightarrow> world" where
  "click_generate w =
     (if generate_button_shown (sess w)
      then Button_click False (status (sess w) = Generating) (\<lambda>w'. step w' EvGenerate) w
      else w)"

subsection \<open>The other controls of the page (App.tsx, components/ImageUploader.tsx)\<close>

text \<open>
  The Reset of the header, rendered past \<^verbatim>\<open>if (!apiKeySet) return ...\<close> inside
  \<^verbatim>\<open>{originalImage && (<button onClick={handleClear} ...>Reset</button>)}\<close>: a plain
  button with no \<^verbatim>\<open>disabled\<close>.
\<close>

definition click_header_reset :: "world \<Rightarrow> world" where
  "click_header_reset w =
     (if apiKeySet (sess w) \<and> truthy (originalImage (sess w)) then step w EvReset else w)"

text \<open>
  The close button of \<^verbatim>\<open>ImageUploader\<close>, rendered in its preview mode
  (\<^verbatim>\<open>if (currentImage)\<close>): \<^verbatim>\<open><button onClick={onClear} disabled={disabled}>\<close>, with
  \<^verbatim>\<open>onClear={handleClear}\<close> and \<^verbatim>\<open>disabled={status === 'generating'}\<close>.
\<close>

definition click_close :: "world \<Rightarrow> world" where
  "click_close w =
     (if apiKeySet (sess w) \<and> truthy (originalImage (sess w)) \<and> status (sess w) \<noteq> Generating
      then step w EvReset else w)"

text \<open>
  The file input of \<^verbatim>\<open>ImageUploader\<close>, rendered when there is no current image:
  \<^verbatim>\<open><input type="file" onChange={handleFileChange} disabled={disabled}>\<close>; the change
  handler calls \<^verbatim>\<open>onImageUpload(file)\<close>, which is \<^verbatim>\<open>handleImageUpload\<close>.
\<close>

definition choose_file :: "string \<Rightarrow> world \<Rightarrow> world" where
  "choose_file url w =
     (if apiKeySet (sess w) \<and> \<not> truthy (originalImage (sess w)) \<and> status (sess w) \<noteq> Generating
      then step w (EvUpload url) else w)"

text \<open>
  What happens to the page: the key check of the mount effect answers, the user acts on
  a control, a file read or a remote call settles.
\<close>

datatype action =
    Mounted "bool option"
  | ChooseFile string
  | FileRead read_outcome
  | ClickGenerate
  | Answered nat "jserror + response"
  | ClickHeaderReset
  | ClickClose

fun act :: "world \<Rightarrow> action \<Rightarrow> world" where
  "act w (Mounted r) = step w (EvCheckApiKey r)"
| "act w (ChooseFile url) = choose_file url w"
| "act w (FileRead outcome) = step w (EvUploadSettled outcome)"
| "act w ClickGenerate = click_generate w"
| "act w (Answered n r) = step w (EvGenerateSettled n r)"
| "act w ClickHeaderReset = click_header_reset w"
| "act w ClickClose = click_close w"

definition page_run :: "action list \<Rightarrow> world \<Rightarrow> world" where
  "page_run acts w = foldl act w acts"

section \<open>The data URL read by blobToBase64\<close>

text \<open>
  \<^verbatim>\<open>reader.readAsDataURL(blob)\<close> is the browser's: by the File API its result is
  \<^verbatim>\<open>data:<type>;base64,<payload>\<close>, the payload being the RFC 4648 base64 text of the
  blob's bytes, three bytes to four characters, padded with \<^verbatim>\<open>=\<close>.
\<close>

type_synonym byte = "8 word"

definition b64_alphabet :: string where
  "b64_alphabet = ''ABCDEFGHIJKLMNOPQRSTUVWXYZabcdefghijklmnopqrstuvwxyz0123456789+/''"

definition b64_char :: "nat \<Rightarrow> char" where
  "b64_char i = b64_alphabet ! i"

fun index_of :: "'a list \<Rightarrow> 'a \<Rightarrow> nat option" where
  "index_of [] c = None"
| "index_of (x # xs) c = (if x = c then Some 0 else map_option Suc (index_of xs c))"

definition b64_index :: "char \<Rightarrow> nat option" where
  "b64_index c = index_of b64_alphabet c"

fun b64encode :: "byte list \<Rightarrow> string" where
  "b64encode [] = []"
| "b64encode [a] =
     [b64_char (unat a div 4), b64_char ((unat a mod 4) * 16), CHR ''='', CHR ''='']"
| "b64encode [a, b] =
     [b64_char (unat a div 4), b64_char ((unat a mod 4) * 16 + unat b div 16),
      b64_char ((unat b mod 16) * 4), CHR ''='']"
| "b64encode (a # b # c # rest) =
     [b64_char (unat a div 4), b64_char ((unat a mod 4) * 16 + unat b div 16),
      b64_char ((unat b mod 16) * 4 + unat c div 64), b64_char (unat c mod 64)]
     @ b64encode rest"

definition readAsDataURL :: "string \<Rightarrow> byte list \<Rightarrow> string" where
  "readAsDataURL type bytes = ''data:'' @ type @ '';base64,'' @ b64encode bytes"

text \<open>
  The decoder of the same RFC: four characters to three bytes, \<^verbatim>\<open>=\<close> only as padding
  of the last group; \<open>None\<close> on anything else.
\<close>

definition byte1 :: "nat \<Rightarrow> nat \<Rightarrow> byte" where
  "byte1 p q = of_nat (p * 4 + q div 16)"

definition byte2 :: "nat \<Rightarrow> nat \<Rightarrow> byte" where
  "byte2 q r = of_nat ((q mod 16) * 16 + r div 4)"

definition byte3 :: "nat \<Rightarrow> nat \<Rightarrow> byte" where
  "byte3 r t = of_nat ((r mod 4) * 64 + t)"

fun b64decode :: "string \<Rightarrow> byte list option" where
  "b64decode [] = Some []"
| "b64decode (w # x # y # z # rest) =
     (case (b64_index w, b64_index x) of
        (Some p, Some q) \<Rightarrow>
          if rest = [] \<and> y = CHR ''='' \<and> z = CHR ''='' then Some [byte1 p q]
          else (case b64_index y of
                  None \<Rightarrow> None
                | Some r \<Rightarrow>
                    if rest = [] \<and> z = CHR ''='' then Some [byte1 p q, byte2 q r]
                    else (case b64_index z of
                            None \<Rightarrow> None
                          | Some t \<Rightarrow>
                              map_option (\<lambda>bs. byte1 p q # byte2 q r # byte3 r t # bs)
                                (b64decode rest)))
      | _ \<Rightarrow> None)"
| "b64decode _ = None"

section \<open>Predicates and sample data used in the statements\<close>


text \<open>Sample responses of the remote model: a text part, an inline image part.\<close>

definition text_part :: part where
  "text_part = \<lparr> text_of = Some ''Here is your image'', inlineData = None \<rparr>"

definition image_part :: "string \<Rightarrow> part" where
  "image_part d =
     \<lparr> text_of = None, inlineData = Some \<lparr> data = Some d, mimeType = Some ''image/png'' \<rparr> \<rparr>"

definition response_with :: "part list \<Rightarrow> response" where
  "response_with ps = \<lparr> candidates = Some [\<lparr> content_of = Some \<lparr> parts = Some ps \<rparr> \<rparr>] \<rparr>"

text \<open>
  A session with a credential and an uploaded, encoded image; the same with a
  generation under way.
\<close>

definition ready_events :: "event list" where
  "ready_events = [EvCheckApiKey (Some True), EvUpload ''blob:a'',
     EvUploadSettled (Loaded ''data:image/png;base64,QUJD'')]"

text \<open>
  On the page: the key check answers yes, a file is chosen and read, Generate is
  clicked.
\<close>

definition generating_actions :: "action list" where
  "generating_actions = [Mounted (Some True), ChooseFile ''blob:a'',
     FileRead (Loaded ''data:image/png;base64,QUJD''), ClickGenerate]"


section \<open>Base64: decoding undoes encoding\<close>

lemma b64_alphabet_length: "length b64_alphabet = 64"
  by (simp add: b64_alphabet_def)

lemma b64_alphabet_distinct: "distinct b64_alphabet"
  by (simp add: b64_alphabet_def)

lemma index_of_nth: "distinct xs \<Longrightarrow> i < length xs \<Longrightarrow> index_of xs (xs ! i) = Some i"
proof (induction xs arbitrary: i)
  case Nil
  then show ?case by simp
next
  case (Cons x xs)
  show ?case
  proof (cases i)
    case 0
    then show ?thesis by simp
  next
    case (Suc j)
    with Cons.prems have "j < length xs" "xs ! j \<in> set xs" "x \<notin> set xs" "distinct xs" by auto
    with Cons.IH [of j] Suc show ?thesis by auto
  qed
qed

lemma b64_index_char: "i < 64 \<Longrightarrow> b64_index (b64_char i) = Some i"
  unfolding b64_index_def b64_char_def
  by (rule index_of_nth) (simp_all add: b64_alphabet_distinct b64_alphabet_length)

lemma b64_char_in: "i < 64 \<Longrightarrow> b64_char i \<in> set b64_alphabet"
  unfolding b64_char_def by (rule nth_mem) (simp add: b64_alphabet_length)

lemma b64_char_not_pad: "i < 64 \<Longrightarrow> b64_char i \<noteq> CHR ''=''"
proof -
  assume "i < 64"
  then have "b64_char i \<in> set b64_alphabet" by (rule b64_char_in)
  moreover have "CHR ''='' \<notin> set b64_alphabet" by (simp add: b64_alphabet_def)
  ultimately show ?thesis by metis
qed

lemma b64_char_not_comma: "i < 64 \<Longrightarrow> b64_char i \<noteq> CHR '',''"
proof -
  assume "i < 64"
  then have "b64_char i \<in> set b64_alphabet" by (rule b64_char_in)
  moreover have "CHR '','' \<notin> set b64_alphabet" by (simp add: b64_alphabet_def)
  ultimately show ?thesis by metis
qed

lemma unat_byte_lt: "unat (a :: byte) < 256"
  using unsigned_less [of a, where ?'a = nat] by simp

lemma sextet_bounds:
  fixes a b c :: byte
  shows "unat a div 4 < 64" "(unat a mod 4) * 16 < 64"
    "(unat a mod 4) * 16 + unat b div 16 < 64"
    "(unat b mod 16) * 4 < 64" "(unat b mod 16) * 4 + unat c div 64 < 64" "unat c mod 64 < 64"
  using unat_byte_lt [of a] unat_byte_lt [of b] unat_byte_lt [of c] by auto

lemma byte1_enc:
  assumes "unat b < 256"
  shows "byte1 (unat (a::byte) div 4) ((unat a mod 4) * 16 + unat (b::byte) div 16) = a"
proof -
  have "unat b div 16 < 16" using assms by simp
  then have "((unat a mod 4) * 16 + unat b div 16) div 16 = unat a mod 4" by simp
  then have "unat a div 4 * 4 + ((unat a mod 4) * 16 + unat b div 16) div 16 = unat a" by simp
  then show ?thesis by (simp add: byte1_def)
qed

lemma byte1_enc0: "byte1 (unat (a::byte) div 4) ((unat a mod 4) * 16) = a"
proof -
  have "unat a div 4 * 4 + ((unat a mod 4) * 16) div 16 = unat a" by simp
  then show ?thesis by (simp add: byte1_def)
qed

lemma byte2_enc:
  assumes "unat (b::byte) < 256" "unat (c::byte) < 256"
  shows "byte2 ((unat (a::byte) mod 4) * 16 + unat b div 16) ((unat b mod 16) * 4 + unat c div 64) = b"
proof -
  have 1: "unat b div 16 < 16" using assms by simp
  have 2: "unat c div 64 < 4" using assms by simp
  from 1 have "((unat a mod 4) * 16 + unat b div 16) mod 16 = unat b div 16" by simp
  moreover from 2 have "((unat b mod 16) * 4 + unat c div 64) div 4 = unat b mod 16" by simp
  ultimately have "((unat a mod 4) * 16 + unat b div 16) mod 16 * 16
      + ((unat b mod 16) * 4 + unat c div 64) div 4 = unat b" by simp
  then show ?thesis by (simp add: byte2_def)
qed

lemma byte2_enc0:
  assumes "unat (b::byte) < 256"
  shows "byte2 ((unat (a::byte) mod 4) * 16 + unat b div 16) ((unat b mod 16) * 4) = b"
proof -
  have 1: "unat b div 16 < 16" using assms by simp
  from 1 have "((unat a mod 4) * 16 + unat b div 16) mod 16 = unat b div 16" by simp
  moreover have "((unat b mod 16) * 4) div 4 = unat b mod 16" by simp
  ultimately have "((unat a mod 4) * 16 + unat b div 16) mod 16 * 16
      + ((unat b mod 16) * 4) div 4 = unat b" by simp
  then show ?thesis by (simp add: byte2_def)
qed

lemma byte3_enc:
  assumes "unat (c::byte) < 256"
  shows "byte3 ((unat (b::byte) mod 16) * 4 + unat c div 64) (unat c mod 64) = c"
proof -
  have 2: "unat c div 64 < 4" using assms by simp
  then have "((unat b mod 16) * 4 + unat c div 64) mod 4 = unat c div 64" by simp
  then have "((unat b mod 16) * 4 + unat c div 64) mod 4 * 64 + unat c mod 64 = unat c" by simp
  then show ?thesis by (simp add: byte3_def)
qed

lemma b64decode_encode: "b64decode (b64encode bs) = Some bs"
proof (induction bs rule: b64encode.induct)
  case 1
  then show ?case by simp
next
  case (2 a)
  show ?case
    by (simp add: b64_index_char sextet_bounds byte1_enc0)
next
  case (3 a b)
  show ?case
    by (simp add: b64_index_char b64_char_not_pad sextet_bounds byte1_enc byte2_enc0 unat_byte_lt)
next
  case (4 a b c rest)
  from 4 show ?case
    by (simp add: b64_index_char b64_char_not_pad sextet_bounds byte1_enc byte2_enc byte3_enc unat_byte_lt)
qed

lemma b64encode_no_comma: "CHR '','' \<notin> set (b64encode bs)"
proof (induction bs rule: b64encode.induct)
  case 1
  then show ?case by simp
next
  case (2 a)
  show ?case by (simp add: b64_char_not_comma [symmetric] sextet_bounds)
next
  case (3 a b)
  show ?case by (simp add: b64_char_not_comma [symmetric] sextet_bounds)
next
  case (4 a b c rest)
  from 4 show ?case by (simp add: b64_char_not_comma [symmetric] sextet_bounds)
qed

lemma split_on_absent: "c \<notin> set xs \<Longrightarrow> split_on c xs = [xs]"
  by (induction xs) auto

lemma split_on_once:
  "c \<notin> set pre \<Longrightarrow> c \<notin> set post \<Longrightarrow> split_on c (pre @ c # post) = [pre, post]"
  by (induction pre) (auto simp: split_on_absent)

text \<open>
  C9. For a blob whose media type holds no comma (no MIME type does), the string that
  \<open>blobToBase64\<close> resolves with is the part of the data URL after the first comma,
  and base64-decoding it gives back exactly the bytes of the blob.
\<close>

theorem blobToBase64_roundtrip:
  assumes "CHR '','' \<notin> set type"
  shows "\<exists>payload. blobToBase64 (Loaded (readAsDataURL type bytes)) = Inr (Some payload)
           \<and> b64decode payload = Some bytes"
proof -
  have "readAsDataURL type bytes = (''data:'' @ type @ '';base64'') @ CHR '','' # b64encode bytes"
    by (simp add: readAsDataURL_def)
  moreover have "CHR '','' \<notin> set (''data:'' @ type @ '';base64'')"
    using assms by simp
  ultimately have "split_on (CHR '','') (readAsDataURL type bytes)
      = [''data:'' @ type @ '';base64'', b64encode bytes]"
    using split_on_once [OF _ b64encode_no_comma] by metis
  then have "blobToBase64 (Loaded (readAsDataURL type bytes)) = Inr (Some (b64encode bytes))"
    by simp
  then show ?thesis using b64decode_encode by blast
qed

theorem blobToBase64_roundtrip_witness:
  "CHR '','' \<notin> set ''image/png'' \<and>
   (\<exists>payload. blobToBase64 (Loaded (readAsDataURL ''image/png'' [137, 80, 78, 71])) = Inr (Some payload)
           \<and> b64decode payload = Some [137, 80, 78, 71])"
  using blobToBase64_roundtrip [of "''image/png''" "[137, 80, 78, 71]"] by simp

section \<open>Evaluating the handlers\<close>

lemmas evals = run_def initial_world_def initial_def ready_events_def
  handleImageUpload_begin_def handleGenerate_begin_def build_request_def handleClear_def
  discardResult_def setSelectedRatio_def generateExpandedImage_def response_parts_def
  click_generate_def generate_button_shown_def Button_click_def handleImageUpload_def
  handleGenerate_def credential_marker_def response_with_def text_part_def image_part_def
  page_run_def generating_actions_def click_header_reset_def click_close_def choose_file_def

section \<open>The guards of generate\<close>

text \<open>
  C10. With the credential flag false, \<open>handleGenerate\<close> returns at its first line:
  the session is unchanged and nothing is sent, whatever the encoded image.
\<close>

theorem generate_without_credential_noop:
  assumes "\<not> apiKeySet (sess w)"
  shows "handleGenerate_begin (sess w) = (sess w, None)
    \<and> handleGenerate generateContent (sess w) = (sess w, None)
    \<and> step w EvGenerate = w"
  using assms by (simp add: handleGenerate_begin_def handleGenerate_def)

text \<open>
  An image is uploaded and encoded, a generation fails on the key and demotes the
  credential; the next call of the handler does nothing.
\<close>

theorem generate_without_credential_noop_witness:
  "\<not> apiKeySet (sess (run (ready_events @ [EvGenerate,
       EvGenerateSettled 0 (Inl (JsError (Some ''Requested entity was not found.'')))])
       initial_world))
   \<and> originalImageBase64 (sess (run (ready_events @ [EvGenerate,
       EvGenerateSettled 0 (Inl (JsError (Some ''Requested entity was not found.'')))])
       initial_world)) = Some ''QUJD''
   \<and> step (run (ready_events @ [EvGenerate,
       EvGenerateSettled 0 (Inl (JsError (Some ''Requested entity was not found.'')))])
       initial_world) EvGenerate
     = run (ready_events @ [EvGenerate,
       EvGenerateSettled 0 (Inl (JsError (Some ''Requested entity was not found.'')))])
       initial_world"
  using generate_without_credential_noop
    [of "run (ready_events @ [EvGenerate,
       EvGenerateSettled 0 (Inl (JsError (Some ''Requested entity was not found.'')))])
       initial_world"]
  by (simp add: evals)

lemma step_generate_noop:
  "\<not> truthy (originalImageBase64 (sess w)) \<or> \<not> apiKeySet (sess w) \<Longrightarrow> step w EvGenerate = w"
  by (auto simp: handleGenerate_begin_def)

lemma step_generate_status:
  "truthy (originalImageBase64 (sess w)) \<Longrightarrow> apiKeySet (sess w) \<Longrightarrow>
   status (sess (step w EvGenerate)) = Generating"
  by (cases "originalImageBase64 (sess w)") (auto simp: handleGenerate_begin_def)

lemma step_generate_sent:
  "truthy (originalImageBase64 (sess w)) \<Longrightarrow> apiKeySet (sess w) \<Longrightarrow>
   length (sent (step w EvGenerate)) = Suc (length (sent w))"
  by (cases "originalImageBase64 (sess w)") (auto simp: handleGenerate_begin_def)

lemma click_generate_cases:
  "click_generate w =
     (if generate_button_shown (sess w) \<and> status (sess w) \<noteq> Generating
      then step w EvGenerate else w)"
  by (simp add: click_generate_def Button_click_def)

lemma click_generate_idem: "click_generate (click_generate w) = click_generate w"
proof (cases "generate_button_shown (sess w) \<and> status (sess w) \<noteq> Generating")
  case False
  then have "click_generate w = w"
    by (auto simp: click_generate_cases simp del: step.simps)
  then show ?thesis by simp
next
  case shown: True
  then have c: "click_generate w = step w EvGenerate"
    by (simp add: click_generate_cases del: step.simps)
  show ?thesis
  proof (cases "truthy (originalImageBase64 (sess w)) \<and> apiKeySet (sess w)")
    case True
    then have "status (sess (step w EvGenerate)) = Generating"
      using step_generate_status [of w] by blast
    then have "click_generate (step w EvGenerate) = step w EvGenerate"
      by (simp add: click_generate_cases del: step.simps)
    with c show ?thesis by simp
  next
    case False
    then have "step w EvGenerate = w"
      using step_generate_noop [of w] by blast
    with c show ?thesis by simp
  qed
qed

text \<open>
  The Generate button is disabled while \<open>status\<close> is generating: a click in a
  generating session changes nothing and sends nothing, a second click right after a
  first one changes nothing more, and two clicks in a row on a shown, enabled button of
  a session with an encoded image send exactly one request.
\<close>

theorem click_generate_single_flight:
  "(status (sess w) = Generating \<longrightarrow> click_generate w = w)
   \<and> click_generate (click_generate w) = click_generate w
   \<and> (generate_button_shown (sess w) \<and> status (sess w) \<noteq> Generating
        \<and> truthy (originalImageBase64 (sess w))
      \<longrightarrow> length (sent (click_generate (click_generate w))) = Suc (length (sent w)))"
proof -
  have a: "status (sess w) = Generating \<longrightarrow> click_generate w = w"
    by (simp add: click_generate_cases del: step.simps)
  have b: "generate_button_shown (sess w) \<and> status (sess w) \<noteq> Generating
        \<and> truthy (originalImageBase64 (sess w))
      \<longrightarrow> length (sent (click_generate w)) = Suc (length (sent w))"
    using step_generate_sent [of w]
    by (auto simp: click_generate_cases generate_button_shown_def simp del: step.simps)
  from a b show ?thesis by (simp add: click_generate_idem)
qed

theorem click_generate_single_flight_witness:
  "status (sess (run (ready_events @ [EvGenerate]) initial_world)) = Generating
   \<and> click_generate (run (ready_events @ [EvGenerate]) initial_world)
       = run (ready_events @ [EvGenerate]) initial_world
   \<and> generate_button_shown (sess (run ready_events initial_world))
   \<and> status (sess (run ready_events initial_world)) = Idle
   \<and> originalImageBase64 (sess (run ready_events initial_world)) = Some ''QUJD''
   \<and> length (sent (run ready_events initial_world)) = 0
   \<and> length (sent (click_generate (click_generate (run ready_events initial_world)))) = 1"
  using click_generate_single_flight [of "run (ready_events @ [EvGenerate]) initial_world"]
    click_generate_single_flight [of "run ready_events initial_world"]
  by (simp add: evals)

text \<open>
  C1 on the code. While a generation is in flight the Generate button and the close
  button of the uploader do nothing, but the Reset of the header is not disabled: it
  sets status back to idle, the file input comes back, and after a second upload the
  Generate button is enabled again. The second click sends a second request while the
  first is still in flight.
\<close>

theorem header_reset_allows_second_generation:
  "status (sess (page_run generating_actions initial_world)) = Generating
   \<and> length (inflight (page_run generating_actions initial_world)) = 1
   \<and> page_run (generating_actions @ [ClickGenerate]) initial_world
       = page_run generating_actions initial_world
   \<and> page_run (generating_actions @ [ClickClose]) initial_world
       = page_run generating_actions initial_world
   \<and> status (sess (page_run (generating_actions @ [ClickHeaderReset]) initial_world)) = Idle
   \<and> length (inflight (page_run (generating_actions @ [ClickHeaderReset, ChooseFile ''blob:b'',
        FileRead (Loaded ''data:image/png;base64,UVJT''), ClickGenerate]) initial_world)) = 2
   \<and> map req_data (sent (page_run (generating_actions @ [ClickHeaderReset, ChooseFile ''blob:b'',
        FileRead (Loaded ''data:image/png;base64,UVJT''), ClickGenerate]) initial_world))
       = [''QUJD'', ''UVJT'']"
  by (simp add: evals)

section \<open>Upload\<close>

text \<open>
  C8. \<open>handleImageUpload\<close> sets the generated image and the error message to null
  before it waits for the reader, whatever the session was; when the handler is done
  the generated image is still null and the error message is null or, if the read
  failed, the message of this upload.
\<close>

theorem upload_clears_result_and_error:
  "generatedImage (handleImageUpload_begin url s) = None
   \<and> errorMsg (handleImageUpload_begin url s) = None
   \<and> generatedImage (handleImageUpload url outcome s) = None
   \<and> errorMsg (handleImageUpload url outcome s)
       = (case outcome of
            ReadError \<Rightarrow> Some ''Failed to process image. Please try another one.''
          | Loaded r \<Rightarrow> None)"
  by (cases outcome) (simp_all add: handleImageUpload_def handleImageUpload_begin_def)

theorem upload_clears_result_and_error_witness:
  "generatedImage (handleImageUpload ''blob:b'' (Loaded ''data:image/png;base64,QUJD'')
      (initial\<lparr>generatedImage := Some ''data:image/png;base64,AAAA'', status := Error,
         errorMsg := Some ''Failed to fetch''\<rparr>)) = None
   \<and> errorMsg (handleImageUpload ''blob:b'' (Loaded ''data:image/png;base64,QUJD'')
      (initial\<lparr>generatedImage := Some ''data:image/png;base64,AAAA'', status := Error,
         errorMsg := Some ''Failed to fetch''\<rparr>)) = None"
  using upload_clears_result_and_error [of "''blob:b''"
      "initial\<lparr>generatedImage := Some ''data:image/png;base64,AAAA'', status := Error,
         errorMsg := Some ''Failed to fetch''\<rparr>" "Loaded ''data:image/png;base64,QUJD''"]
  by simp

text \<open>
  C2 on the code. Called on a session that holds an encoded image, an upload whose
  read fails leaves that encoding in place beside the new original image, and the next
  generate sends it. Through the page the same session arises when the first file is
  still being read while the user resets and picks a second file: the reset clears the
  encoding, the first read then stores it again, the second read fails.
\<close>

theorem failed_upload_keeps_stale_encoding:
  "originalImage (sess (run (ready_events @ [EvUpload ''blob:b'', EvUploadSettled ReadError])
       initial_world)) = Some ''blob:b''
   \<and> originalImageBase64 (sess (run (ready_events @ [EvUpload ''blob:b'', EvUploadSettled ReadError])
       initial_world)) = Some ''QUJD''
   \<and> errorMsg (sess (run (ready_events @ [EvUpload ''blob:b'', EvUploadSettled ReadError])
       initial_world)) = Some ''Failed to process image. Please try another one.''
   \<and> map req_data (sent (run (ready_events @ [EvUpload ''blob:b'', EvUploadSettled ReadError,
       EvGenerate]) initial_world)) = [''QUJD'']
   \<and> originalImage (sess (run [EvCheckApiKey (Some True), EvUpload ''blob:a'', EvReset,
       EvUpload ''blob:b'', EvUploadSettled (Loaded ''data:image/png;base64,QUJD''),
       EvUploadSettled ReadError] initial_world)) = Some ''blob:b''
   \<and> originalImageBase64 (sess (run [EvCheckApiKey (Some True), EvUpload ''blob:a'', EvReset,
       EvUpload ''blob:b'', EvUploadSettled (Loaded ''data:image/png;base64,QUJD''),
       EvUploadSettled ReadError] initial_world)) = Some ''QUJD''
   \<and> map req_data (sent (run [EvCheckApiKey (Some True), EvUpload ''blob:a'', EvReset,
       EvUpload ''blob:b'', EvUploadSettled (Loaded ''data:image/png;base64,QUJD''),
       EvUploadSettled ReadError, EvGenerate] initial_world)) = [''QUJD'']"
  by (simp add: evals)

section \<open>Reset\<close>

lemma handleClear_fields:
  "originalImage (handleClear s) = None \<and> originalImageBase64 (handleClear s) = None
   \<and> generatedImage (handleClear s) = None \<and> status (handleClear s) = Idle
   \<and> errorMsg (handleClear s) = errorMsg s"
  by (simp add: handleClear_def)

text \<open>
  C4 on the code: a generation fails on the network, then the user resets. The status
  is idle again and the error message of the failed generation is still stored.
\<close>

theorem reset_keeps_error_message:
  "status (sess (run (ready_events @ [EvGenerate,
       EvGenerateSettled 0 (Inl (JsError (Some ''Failed to fetch'')))]) initial_world)) = Error
   \<and> status (sess (run (ready_events @ [EvGenerate,
       EvGenerateSettled 0 (Inl (JsError (Some ''Failed to fetch''))), EvReset]) initial_world))
       = Idle
   \<and> errorMsg (sess (run (ready_events @ [EvGenerate,
       EvGenerateSettled 0 (Inl (JsError (Some ''Failed to fetch''))), EvReset]) initial_world))
       = Some ''Failed to fetch''"
  by (simp add: evals)

section \<open>The outcome of a generation\<close>

lemma str_includes_nonempty: "str_includes m pat \<Longrightarrow> pat \<noteq> [] \<Longrightarrow> m \<noteq> []"
  by (cases m) auto

text \<open>
  C5. A failure whose message contains the marker text leaves the session with status
  error, the credential flag false and the message that asks for the key again; no
  other field changes.
\<close>

theorem credential_failure_demotes:
  assumes "str_includes m credential_marker"
  shows "handleGenerate_settle (Inl (JsError (Some m))) s =
           s\<lparr>status := Error, apiKeySet := False,
             errorMsg := Some ''API Key issue. Please select your key again.''\<rparr>"
proof -
  have "m \<noteq> []"
    using assms by (rule str_includes_nonempty) (simp add: credential_marker_def)
  with assms show ?thesis by (simp add: Let_def)
qed

theorem credential_failure_demotes_witness:
  "str_includes ''404: Requested entity was not found.'' credential_marker
   \<and> handleGenerate_settle (Inl (JsError (Some ''404: Requested entity was not found.'')))
        (initial\<lparr>apiKeySet := True, status := Generating\<rparr>)
     = initial\<lparr>apiKeySet := False, status := Error,
         errorMsg := Some ''API Key issue. Please select your key again.''\<rparr>"
proof -
  have h: "str_includes ''404: Requested entity was not found.'' credential_marker"
    by (simp add: credential_marker_def)
  show ?thesis
    using h credential_failure_demotes
      [OF h, of "initial\<lparr>apiKeySet := True, status := Generating\<rparr>"]
    by (simp add: initial_def)
qed

lemma extract_image_none:
  "(\<forall>p \<in> set ps. inlineData p = None) \<Longrightarrow>
   extract_image ps = Inl (JsError (Some ''No image data found in response''))"
  by (induction ps) auto

lemma extract_image_first:
  "(\<forall>q \<in> set pre. inlineData q = None) \<Longrightarrow> inlineData p = Some d \<Longrightarrow>
   extract_image (pre @ p # post) = Inr (''data:image/png;base64,'' @ template_string (data d))"
  by (induction pre) auto

lemma extract_image_fails_iff:
  "(\<exists>e. extract_image ps = Inl e) \<longleftrightarrow> (\<forall>p \<in> set ps. inlineData p = None)"
  by (induction ps) (auto split: option.splits)

lemma no_image_not_key_error:
  "\<not> is_key_error (JsError (Some ''No image data found in response''))"
  by (simp add: credential_marker_def)

text \<open>
  C6. When the remote call answers, \<open>generateExpandedImage\<close> returns the data URI of
  the first part, in order, that has inline data; it fails exactly when no part has
  any, and \<open>handleGenerate\<close> then sets status error with the message
  "No image data found in response" and changes nothing else.
\<close>

theorem first_inline_image_or_error:
  assumes "generateContent (build_request b64 ratio default_prompt) = Inr resp"
  shows "(\<forall>pre p post d. response_parts resp = pre @ p # post
            \<and> (\<forall>q \<in> set pre. inlineData q = None) \<and> inlineData p = Some d
          \<longrightarrow> generateExpandedImage generateContent b64 ratio
                = Inr (''data:image/png;base64,'' @ template_string (data d)))
       \<and> ((\<exists>e. generateExpandedImage generateContent b64 ratio = Inl e)
            \<longleftrightarrow> (\<forall>p \<in> set (response_parts resp). inlineData p = None))
       \<and> ((\<forall>p \<in> set (response_parts resp). inlineData p = None)
          \<longrightarrow> handleGenerate_settle (generateExpandedImage generateContent b64 ratio) s
                = s\<lparr>status := Error, errorMsg := Some ''No image data found in response''\<rparr>)"
proof -
  have g: "generateExpandedImage generateContent b64 ratio = extract_image (response_parts resp)"
    using assms by (simp add: generateExpandedImage_def)
  have 1: "\<forall>pre p post d. response_parts resp = pre @ p # post
            \<and> (\<forall>q \<in> set pre. inlineData q = None) \<and> inlineData p = Some d
          \<longrightarrow> generateExpandedImage generateContent b64 ratio
                = Inr (''data:image/png;base64,'' @ template_string (data d))"
    unfolding g using extract_image_first by metis
  have 2: "(\<exists>e. generateExpandedImage generateContent b64 ratio = Inl e)
            \<longleftrightarrow> (\<forall>p \<in> set (response_parts resp). inlineData p = None)"
    unfolding g by (rule extract_image_fails_iff)
  have 3: "(\<forall>p \<in> set (response_parts resp). inlineData p = None)
          \<longrightarrow> handleGenerate_settle (generateExpandedImage generateContent b64 ratio) s
                = s\<lparr>status := Error, errorMsg := Some ''No image data found in response''\<rparr>"
    unfolding g using no_image_not_key_error by (simp add: extract_image_none Let_def)
  from 1 2 3 show ?thesis by blast
qed

text \<open>
  A response with a text part and two image parts gives the first image; one with a
  text part only gives the error state.
\<close>

theorem first_inline_image_or_error_witness:
  "generateExpandedImage
       (\<lambda>_. Inr (response_with [text_part, image_part ''AAAA'', image_part ''BBBB'']))
       ''QUJD'' STORY = Inr ''data:image/png;base64,AAAA''
   \<and> handleGenerate_settle
        (generateExpandedImage (\<lambda>_. Inr (response_with [text_part])) ''QUJD'' STORY)
        (initial\<lparr>status := Generating\<rparr>)
      = initial\<lparr>status := Error, errorMsg := Some ''No image data found in response''\<rparr>"
proof -
  let ?r1 = "response_with [text_part, image_part ''AAAA'', image_part ''BBBB'']"
  let ?r2 = "response_with [text_part]"
  let ?d = "\<lparr> data = Some ''AAAA'', mimeType = Some ''image/png'' \<rparr>"
  have h1: "(\<lambda>_. Inr ?r1) (build_request ''QUJD'' STORY default_prompt) = Inr ?r1" by simp
  have h2: "(\<lambda>_. Inr ?r2) (build_request ''QUJD'' STORY default_prompt) = Inr ?r2" by simp
  have p1: "response_parts ?r1 = [text_part] @ image_part ''AAAA'' # [image_part ''BBBB'']"
    by (simp add: response_with_def response_parts_def)
  have q1: "\<forall>q \<in> set [text_part]. inlineData q = None" by (simp add: text_part_def)
  have d1: "inlineData (image_part ''AAAA'') = Some ?d" by (simp add: image_part_def)
  have p2: "\<forall>p \<in> set (response_parts ?r2). inlineData p = None"
    by (simp add: response_with_def response_parts_def text_part_def)
  have "generateExpandedImage (\<lambda>_. Inr ?r1) ''QUJD'' STORY
          = Inr (''data:image/png;base64,'' @ template_string (data ?d))"
    using first_inline_image_or_error [OF h1, where s = initial] p1 q1 d1 by blast
  moreover have "handleGenerate_settle (generateExpandedImage (\<lambda>_. Inr ?r2) ''QUJD'' STORY)
        (initial\<lparr>status := Generating\<rparr>)
      = initial\<lparr>status := Generating\<rparr>
          \<lparr>status := Error, errorMsg := Some ''No image data found in response''\<rparr>"
    using first_inline_image_or_error [OF h2, where s = "initial\<lparr>status := Generating\<rparr>"] p2
    by blast
  ultimately show ?thesis by simp
qed

lemma settle_frame:
  "originalImage (handleGenerate_settle r t) = originalImage t
   \<and> originalImageBase64 (handleGenerate_settle r t) = originalImageBase64 t
   \<and> selectedRatio (handleGenerate_settle r t) = selectedRatio t"
  by (cases r) (simp_all add: Let_def)

lemma begin_frame:
  "originalImage (fst (handleGenerate_begin s)) = originalImage s
   \<and> originalImageBase64 (fst (handleGenerate_begin s)) = originalImageBase64 s
   \<and> selectedRatio (fst (handleGenerate_begin s)) = selectedRatio s"
  by (cases "originalImageBase64 s") (simp_all add: handleGenerate_begin_def)

lemma handleGenerate_shape:
  "fst (handleGenerate generateContent s) = fst (handleGenerate_begin s)
   \<or> (\<exists>r. fst (handleGenerate generateContent s)
          = handleGenerate_settle r (fst (handleGenerate_begin s)))"
  by (cases "handleGenerate_begin s") (auto simp: handleGenerate_def split: option.splits)

text \<open>
  C7. Whatever error a generation ends with, the \<open>catch\<close> of \<open>handleGenerate\<close> leaves
  the original image, the encoded image and the selected ratio as they were; so does
  the whole handler, from its first line on.
\<close>

theorem generate_failure_frame:
  "originalImage (handleGenerate_settle (Inl err) s) = originalImage s
   \<and> originalImageBase64 (handleGenerate_settle (Inl err) s) = originalImageBase64 s
   \<and> selectedRatio (handleGenerate_settle (Inl err) s) = selectedRatio s
   \<and> originalImage (fst (handleGenerate generateContent s)) = originalImage s
   \<and> originalImageBase64 (fst (handleGenerate generateContent s)) = originalImageBase64 s
   \<and> selectedRatio (fst (handleGenerate generateContent s)) = selectedRatio s"
  using settle_frame begin_frame [of s] handleGenerate_shape [of generateContent s]
  by metis

theorem generate_failure_frame_witness:
  "fst (handleGenerate (\<lambda>_. Inl (JsError (Some ''Failed to fetch'')))
     (initial\<lparr>apiKeySet := True, originalImage := Some ''blob:a'',
        originalImageBase64 := Some ''QUJD'', selectedRatio := STORY\<rparr>))
   = initial\<lparr>apiKeySet := True, originalImage := Some ''blob:a'',
        originalImageBase64 := Some ''QUJD'', selectedRatio := STORY,
        status := Error, errorMsg := Some ''Failed to fetch''\<rparr>
   \<and> originalImageBase64 (fst (handleGenerate (\<lambda>_. Inl (JsError (Some ''Failed to fetch'')))
     (initial\<lparr>apiKeySet := True, originalImage := Some ''blob:a'',
        originalImageBase64 := Some ''QUJD'', selectedRatio := STORY\<rparr>))) = Some ''QUJD''"
  using generate_failure_frame [of "JsError (Some ''Failed to fetch'')"
     "initial\<lparr>apiKeySet := True, originalImage := Some ''blob:a'',
        originalImageBase64 := Some ''QUJD'', selectedRatio := STORY\<rparr>"
     "\<lambda>_. Inl (JsError (Some ''Failed to fetch''))"]
  by (simp add: evals)

section \<open>What holds in every reachable session\<close>







end
